theory Spec2Isabelle
  imports Main "HOL-Library.Sublist"
begin

section \<open>Go values used by the node lifecycle code\<close>

text \<open>
  A Go \<open>error\<close> value: the text its \<open>Error()\<close> method returns and, for an error that
  the command executor produced from a process exit, the exit status it carries.
  \<open>None\<close> of type \<open>error option\<close> is Go's \<open>nil\<close> error.
\<close>

datatype error = GoError (Error: string) (ExitStatus: "int option")

text \<open>
  How a call ends: it returns, the process exits through \<open>zap.S().Fatalf\<close>
  (deferred calls do not run), or a run-time panic unwinds it (deferred calls run).
\<close>

datatype 'a outcome = Returned 'a | Fatal string | Panic string

text \<open>\<open>objects.Config\<close>, \<open>keystone.KeystoneAuth\<close>, \<open>objects.NodeConfig\<close> and \<open>qbert.Node\<close>:
  the fields the sources read.\<close>

record Config =
  Fqdn :: string
  Username :: string
  Password :: string
  Tenant :: string
  Region :: string
  WaitPeriod :: int
  AllowInsecure :: bool
  ProxyURL :: string
  MfaToken :: string

record KeystoneAuth =
  Token :: string
  ProjectID :: string

record NodeConfig =
  MFA :: string

record Node =
  ClusterName :: string
  ClusterUuid :: string

section \<open>Strings\<close>

text \<open>
  Go strings are byte sequences; \<open>string\<close> is a list of bytes. The functions below are
  the \<open>strings\<close> package on ASCII text: \<open>strings.Contains\<close> and \<open>strings.Trim\<close> with an
  ASCII cutset are exact on every input; \<open>strings.TrimSpace\<close> and \<open>strings.ToLower\<close>
  treat the ASCII white space and the ASCII letters and leave bytes above 127 alone.
\<close>

fun strings_Contains :: "string \<Rightarrow> string \<Rightarrow> bool" where
  "strings_Contains [] substr = (substr = [])"
| "strings_Contains (c # cs) substr = (prefix substr (c # cs) \<or> strings_Contains cs substr)"

definition isSpace :: "char \<Rightarrow> bool" where
  "isSpace c = (c = CHR 0x09 \<or> c = CHR 0x0A \<or> c = CHR 0x0B \<or> c = CHR 0x0C
                \<or> c = CHR 0x0D \<or> c = CHR '' '')"

definition trimWhile :: "(char \<Rightarrow> bool) \<Rightarrow> string \<Rightarrow> string" where
  "trimWhile p s = rev (dropWhile p (rev (dropWhile p s)))"

definition strings_TrimSpace :: "string \<Rightarrow> string" where
  "strings_TrimSpace s = trimWhile isSpace s"

definition strings_Trim :: "string \<Rightarrow> string \<Rightarrow> string" where
  "strings_Trim s cutset = trimWhile (\<lambda>c. c \<in> set cutset) s"

definition strings_TrimSuffix :: "string \<Rightarrow> string \<Rightarrow> string" where
  "strings_TrimSuffix s suffix' =
     (if suffix suffix' s then take (length s - length suffix') s else s)"

definition toLower_byte :: "char \<Rightarrow> char" where
  "toLower_byte c =
     (case map_of (zip ''ABCDEFGHIJKLMNOPQRSTUVWXYZ'' ''abcdefghijklmnopqrstuvwxyz'') c of
        Some l \<Rightarrow> l
      | None \<Rightarrow> c)"

definition strings_ToLower :: "string \<Rightarrow> string" where
  "strings_ToLower s = map toLower_byte s"

text \<open>\<open>strings.Split(s, sep)\<close> for a one-byte separator: never an empty slice.\<close>

fun strings_Split :: "string \<Rightarrow> char \<Rightarrow> string list" where
  "strings_Split [] sep = [[]]"
| "strings_Split (c # cs) sep =
     (if c = sep then [] # strings_Split cs sep
      else (case strings_Split cs sep of
              [] \<Rightarrow> [[c]]
            | w # ws \<Rightarrow> (c # w) # ws))"

text \<open>The verb \<open>%d\<close> of \<open>fmt\<close> on an \<open>int\<close>, and \<open>%v\<close> on a slice of strings.\<close>

fun digits :: "nat \<Rightarrow> string" where
  "digits n =
     (if n < 10 then [''0123456789'' ! n]
      else digits (n div 10) @ [''0123456789'' ! (n mod 10)])"

definition fmt_d :: "int \<Rightarrow> string" where
  "fmt_d i = (if i < 0 then CHR ''-'' # digits (nat (- i)) else digits (nat i))"

fun join_sp :: "string list \<Rightarrow> string" where
  "join_sp [] = []"
| "join_sp [x] = x"
| "join_sp (x # y # ys) = x @ '' '' @ join_sp (y # ys)"

definition fmt_v_strings :: "string list \<Rightarrow> string" where
  "fmt_v_strings xs = ''['' @ join_sp xs @ '']''"

text \<open>
  \<open>fmt.Errorf(format, err)\<close> with one trailing verb \<open>%s\<close>, \<open>%w\<close> or \<open>%v\<close>, and
  \<open>fmt.Errorf(s)\<close> with a computed text \<open>s\<close> and no argument (the text itself, for a
  text that holds no \<open>%\<close>).
\<close>

definition Errorf_err :: "string \<Rightarrow> error \<Rightarrow> error" where
  "Errorf_err pre e = GoError (pre @ Error e) None"

definition Errorf :: "string \<Rightarrow> error" where
  "Errorf s = GoError s None"

section \<open>The world outside the process\<close>

text \<open>
  Every call that leaves the process (a command through the executor, an HTTP request,
  a control-plane API call, telemetry, standard output, a sleep) is recorded, with what
  it returned, as one event of the run's trace, in the order the calls are made.
  Debug-level logging and the progress spinner are not recorded; \<open>EvLog\<close> records the
  Info and Error lines of the logger.
\<close>

datatype event =
    EvRunWithStdout "string list" string "error option"
  | EvRunCommandWait string
  | EvFetchRegionFQDN string string KeystoneAuth string "error option"
  | EvHttpGet string int "error option"
  | EvGetAuth string string string string KeystoneAuth "error option"
  | EvGetHostId string "string list" "string list"
  | EvAuthorizeHost string string "error option"
  | EvGetNodeInfo string string string Node
  | EvDeauthoriseNode string string "error option"
  | EvDetachNode string string string string "error option"
  | EvCheckClusterExists string string string string
  | EvAttachNode string string string "string list" string "error option"
  | EvSendEvent string KeystoneAuth string string "error option"
  | EvSegmentClose
  | EvGetExecutor string NodeConfig "error option"
  | EvNewClient string bool "error option"
  | EvCheckIfdpkgISLock bool "error option"
  | EvVersion string string "error option"
  | EvCheckRemote NodeConfig bool
  | EvValidateNodeConfig NodeConfig bool bool NodeConfig
  | EvLoadConfig bool string Config NodeConfig Config "error option"
  | EvPrint string
  | EvLog string string
  | EvSleep int

text \<open>
  The environment answers each call from the history of the run so far, so the same
  command may be answered differently at different times. It also holds the constants
  and helpers of packages whose sources are not at hand (\<open>util\<close>, \<open>cmdexec\<close>, \<open>color\<close>):
  the OS markers, the package and file lists, the directories, the installer-error table
  (a Go \<open>map[int]string\<close>) and \<open>cmdexec.ExitCodeChecker\<close>.
\<close>

record env =
  RunWithStdout :: "event list \<Rightarrow> string list \<Rightarrow> string \<times> error option"
  FetchRegionFQDN :: "event list \<Rightarrow> string \<Rightarrow> string \<Rightarrow> KeystoneAuth \<Rightarrow> string \<times> error option"
  NewRequest :: "string \<Rightarrow> error option"
  Do :: "event list \<Rightarrow> string \<Rightarrow> int \<times> error option"
  GetAuth :: "event list \<Rightarrow> string \<Rightarrow> string \<Rightarrow> string \<Rightarrow> string \<Rightarrow> KeystoneAuth \<times> error option"
  GetHostId :: "event list \<Rightarrow> string \<Rightarrow> string list \<Rightarrow> string list"
  AuthorizeHost :: "event list \<Rightarrow> string \<Rightarrow> string \<Rightarrow> error option"
  GetNodeInfo :: "event list \<Rightarrow> string \<Rightarrow> string \<Rightarrow> string \<Rightarrow> Node"
  DeauthoriseNode :: "event list \<Rightarrow> string \<Rightarrow> string \<Rightarrow> error option"
  DetachNode :: "event list \<Rightarrow> string \<Rightarrow> string \<Rightarrow> string \<Rightarrow> string \<Rightarrow> error option"
  CheckClusterExists :: "event list \<Rightarrow> string \<Rightarrow> string \<Rightarrow> string \<Rightarrow> string"
  AttachNode :: "event list \<Rightarrow> string \<Rightarrow> string \<Rightarrow> string \<Rightarrow> string list \<Rightarrow> string \<Rightarrow> error option"
  SendEvent :: "event list \<Rightarrow> string \<Rightarrow> KeystoneAuth \<Rightarrow> string \<Rightarrow> string \<Rightarrow> error option"
  GetExecutor :: "event list \<Rightarrow> string \<Rightarrow> NodeConfig \<Rightarrow> error option"
  NewClient :: "event list \<Rightarrow> string \<Rightarrow> bool \<Rightarrow> error option"
  CheckIfdpkgISLock :: "event list \<Rightarrow> bool \<times> error option"
  centos_Version :: "event list \<Rightarrow> string \<times> error option"
  debian_Version :: "event list \<Rightarrow> string \<times> error option"
  CheckRemote :: "event list \<Rightarrow> NodeConfig \<Rightarrow> bool"
  ValidateNodeConfig :: "event list \<Rightarrow> NodeConfig \<Rightarrow> bool \<Rightarrow> bool \<times> NodeConfig"
  LoadConfig :: "event list \<Rightarrow> bool \<Rightarrow> string \<Rightarrow> Config \<Rightarrow> NodeConfig \<Rightarrow> Config \<times> error option"
  ExitCodeChecker :: "error \<Rightarrow> string \<times> int"
  InstallerErrors :: "int \<Rightarrow> string option"
  Centos :: string
  Redhat :: string
  Ubuntu :: string
  Pf9Packages :: "string list"
  Files :: "string list"
  EtcDir :: string
  OptDir :: string
  Pf9DBLoc :: string
  Green :: "string \<Rightarrow> string"

text \<open>
  The state of the process: the trace so far and the package-level variables of
  \<open>pmk\<close> (\<open>HostAgent\<close>, \<open>IsRemoteExecutor\<close>, \<open>homeDir\<close>), of \<open>util\<close> (\<open>SkipKube\<close>) and of
  \<open>cmd\<close> (\<open>masterIPs\<close>, \<open>workerIPs\<close>, \<open>clusterName\<close>, \<open>Errhostid\<close>, \<open>attachconfig\<close>, \<open>nc\<close>).
\<close>

record state =
  trace :: "event list"
  HostAgent :: int
  IsRemoteExecutor :: bool
  homeDir :: string
  SkipKube :: bool
  masterIPs :: "string list"
  workerIPs :: "string list"
  clusterName :: string
  Errhostid :: "error option"
  attachconfig :: NodeConfig
  cmd_nc :: NodeConfig

definition emit :: "event \<Rightarrow> state \<Rightarrow> state" where
  "emit e s = s\<lparr>trace := trace s @ [e]\<rparr>"

text \<open>A call that leaves the process: the environment answers it from the trace so far,
  and the call is recorded with its answer.\<close>

definition call :: "(event list \<Rightarrow> 'a) \<Rightarrow> ('a \<Rightarrow> event) \<Rightarrow> state \<Rightarrow> 'a \<times> state" where
  "call f ev s = (let r = f (trace s) in (r, emit (ev r) s))"

definition Println :: "string \<Rightarrow> state \<Rightarrow> state" where
  "Println msg s = emit (EvPrint (msg @ [CHR 0x0A])) s"

definition exec_RunWithStdout :: "env \<Rightarrow> string list \<Rightarrow> state \<Rightarrow> (string \<times> error option) \<times> state" where
  "exec_RunWithStdout E argv =
     call (\<lambda>h. RunWithStdout E h argv) (\<lambda>r. EvRunWithStdout argv (fst r) (snd r))"

definition exec_RunCommandWait :: "string \<Rightarrow> state \<Rightarrow> state" where
  "exec_RunCommandWait cmd s = emit (EvRunCommandWait cmd) s"

definition platform_Version :: "env \<Rightarrow> string \<Rightarrow> state \<Rightarrow> (string \<times> error option) \<times> state" where
  "platform_Version E family =
     call (\<lambda>h. if family = ''centos'' then centos_Version E h else debian_Version E h)
          (\<lambda>r. EvVersion family (fst r) (snd r))"

definition debian_CheckIfdpkgISLock :: "env \<Rightarrow> state \<Rightarrow> (bool \<times> error option) \<times> state" where
  "debian_CheckIfdpkgISLock E =
     call (\<lambda>h. CheckIfdpkgISLock E h) (\<lambda>r. EvCheckIfdpkgISLock (fst r) (snd r))"

definition keystone_FetchRegionFQDN ::
  "env \<Rightarrow> string \<Rightarrow> string \<Rightarrow> KeystoneAuth \<Rightarrow> state \<Rightarrow> (string \<times> error option) \<times> state" where
  "keystone_FetchRegionFQDN E fqdn region auth =
     call (\<lambda>h. FetchRegionFQDN E h fqdn region auth)
          (\<lambda>r. EvFetchRegionFQDN fqdn region auth (fst r) (snd r))"

definition client_Do :: "env \<Rightarrow> string \<Rightarrow> state \<Rightarrow> (int \<times> error option) \<times> state" where
  "client_Do E url = call (\<lambda>h. Do E h url) (\<lambda>r. EvHttpGet url (fst r) (snd r))"

definition Keystone_GetAuth ::
  "env \<Rightarrow> string \<Rightarrow> string \<Rightarrow> string \<Rightarrow> string \<Rightarrow> state \<Rightarrow> (KeystoneAuth \<times> error option) \<times> state" where
  "Keystone_GetAuth E user pass tenant mfa =
     call (\<lambda>h. GetAuth E h user pass tenant mfa)
          (\<lambda>r. EvGetAuth user pass tenant mfa (fst r) (snd r))"

definition Resmgr_GetHostId :: "env \<Rightarrow> string \<Rightarrow> string list \<Rightarrow> state \<Rightarrow> string list \<times> state" where
  "Resmgr_GetHostId E token ips = call (\<lambda>h. GetHostId E h token ips) (\<lambda>r. EvGetHostId token ips r)"

definition Resmgr_AuthorizeHost :: "env \<Rightarrow> string \<Rightarrow> string \<Rightarrow> state \<Rightarrow> error option \<times> state" where
  "Resmgr_AuthorizeHost E hostID token =
     call (\<lambda>h. AuthorizeHost E h hostID token) (\<lambda>r. EvAuthorizeHost hostID token r)"

definition Qbert_GetNodeInfo :: "env \<Rightarrow> string \<Rightarrow> string \<Rightarrow> string \<Rightarrow> state \<Rightarrow> Node \<times> state" where
  "Qbert_GetNodeInfo E token projectID hostID =
     call (\<lambda>h. GetNodeInfo E h token projectID hostID) (\<lambda>r. EvGetNodeInfo token projectID hostID r)"

definition Qbert_DeauthoriseNode :: "env \<Rightarrow> string \<Rightarrow> string \<Rightarrow> state \<Rightarrow> error option \<times> state" where
  "Qbert_DeauthoriseNode E hostID token =
     call (\<lambda>h. DeauthoriseNode E h hostID token) (\<lambda>r. EvDeauthoriseNode hostID token r)"

definition Qbert_DetachNode ::
  "env \<Rightarrow> string \<Rightarrow> string \<Rightarrow> string \<Rightarrow> string \<Rightarrow> state \<Rightarrow> error option \<times> state" where
  "Qbert_DetachNode E uuid projectID token hostID =
     call (\<lambda>h. DetachNode E h uuid projectID token hostID)
          (\<lambda>r. EvDetachNode uuid projectID token hostID r)"

text \<open>\<open>CheckClusterExists\<close> returns three values; the caller keeps the second, the
  cluster's UUID.\<close>

definition Qbert_CheckClusterExists :: "env \<Rightarrow> string \<Rightarrow> string \<Rightarrow> string \<Rightarrow> state \<Rightarrow> string \<times> state" where
  "Qbert_CheckClusterExists E name projectID token =
     call (\<lambda>h. CheckClusterExists E h name projectID token)
          (\<lambda>r. EvCheckClusterExists name projectID token r)"

definition Qbert_AttachNode ::
  "env \<Rightarrow> string \<Rightarrow> string \<Rightarrow> string \<Rightarrow> string list \<Rightarrow> string \<Rightarrow> state \<Rightarrow> error option \<times> state" where
  "Qbert_AttachNode E uuid projectID token hostIds role =
     call (\<lambda>h. AttachNode E h uuid projectID token hostIds role)
          (\<lambda>r. EvAttachNode uuid projectID token hostIds role r)"

definition Segment_SendEvent ::
  "env \<Rightarrow> string \<Rightarrow> KeystoneAuth \<Rightarrow> string \<Rightarrow> string \<Rightarrow> state \<Rightarrow> error option \<times> state" where
  "Segment_SendEvent E name auth status errStr =
     call (\<lambda>h. SendEvent E h name auth status errStr) (\<lambda>r. EvSendEvent name auth status errStr r)"

definition Segment_Close :: "state \<Rightarrow> state" where
  "Segment_Close s = emit EvSegmentClose s"

definition cmdexec_GetExecutor :: "env \<Rightarrow> string \<Rightarrow> NodeConfig \<Rightarrow> state \<Rightarrow> error option \<times> state" where
  "cmdexec_GetExecutor E proxyURL nc =
     call (\<lambda>h. GetExecutor E h proxyURL nc) (\<lambda>r. EvGetExecutor proxyURL nc r)"

definition client_NewClient :: "env \<Rightarrow> string \<Rightarrow> bool \<Rightarrow> state \<Rightarrow> error option \<times> state" where
  "client_NewClient E fqdn allowInsecure =
     call (\<lambda>h. NewClient E h fqdn allowInsecure) (\<lambda>r. EvNewClient fqdn allowInsecure r)"

definition cmdexec_CheckRemote :: "env \<Rightarrow> NodeConfig \<Rightarrow> state \<Rightarrow> bool \<times> state" where
  "cmdexec_CheckRemote E nc = call (\<lambda>h. CheckRemote E h nc) (\<lambda>r. EvCheckRemote nc r)"

text \<open>\<open>config.ValidateNodeConfig(&nc, prompt)\<close> may change the node configuration it is
  given; \<open>config.LoadConfig\<close> and \<open>config.LoadConfigInteractive\<close> fill the configuration
  they are given.\<close>

definition config_ValidateNodeConfig ::
  "env \<Rightarrow> NodeConfig \<Rightarrow> bool \<Rightarrow> state \<Rightarrow> (bool \<times> NodeConfig) \<times> state" where
  "config_ValidateNodeConfig E nc prompt =
     call (\<lambda>h. ValidateNodeConfig E h nc prompt) (\<lambda>r. EvValidateNodeConfig nc prompt (fst r) (snd r))"

definition config_LoadConfig ::
  "env \<Rightarrow> bool \<Rightarrow> string \<Rightarrow> Config \<Rightarrow> NodeConfig \<Rightarrow> state \<Rightarrow> (Config \<times> error option) \<times> state" where
  "config_LoadConfig E interactive loc cfg nc =
     call (\<lambda>h. LoadConfig E h interactive loc cfg nc)
          (\<lambda>r. EvLoadConfig interactive loc cfg nc (fst r) (snd r))"

section \<open>Platform detection (pkg/pmk/node.go)\<close>

text \<open>The command lines the code builds are named, each from its format string.\<close>

definition bash_c :: "string \<Rightarrow> string list" where
  "bash_c cmd = [''bash'', ''-c'', cmd]"

definition cat_os_release :: "string list" where
  "cat_os_release = [''cat'', ''/etc/os-release'']"

definition OpenOSReleaseFile :: "env \<Rightarrow> state \<Rightarrow> (string \<times> error option) \<times> state" where
  "OpenOSReleaseFile E s =
     (case exec_RunWithStdout E cat_os_release s of
        ((data, err), s1) \<Rightarrow>
          (case err of
             Some e \<Rightarrow> (('''', Some (Errorf_err ''failed reading data from file: '' e)), s1)
           | None \<Rightarrow> ((strings_ToLower data, None), s1)))"

definition ValidatePlatform :: "env \<Rightarrow> state \<Rightarrow> (string \<times> error option) \<times> state" where
  "ValidatePlatform E s =
     (case OpenOSReleaseFile E s of
        ((strData, err), s1) \<Rightarrow>
          (case err of
             Some e \<Rightarrow> (('''', Some (Errorf_err ''failed reading data from file: '' e)), s1)
           | None \<Rightarrow>
               if strings_Contains strData (Centos E) \<or> strings_Contains strData (Redhat E) then
                 (case platform_Version E ''centos'' s1 of
                    ((osVersion, None), s2) \<Rightarrow> ((osVersion, None), s2)
                  | ((osVersion, Some e), s2) \<Rightarrow> (('''', None), s2))
               else if strings_Contains strData (Ubuntu E) then
                 (case platform_Version E ''debian'' s1 of
                    ((osVersion, None), s2) \<Rightarrow> ((osVersion, None), s2)
                  | ((osVersion, Some e), s2) \<Rightarrow> (('''', None), s2))
               else (('''', None), s1)))"



section \<open>Provisioning (pkg/pmk/node.go)\<close>

definition HostAgentCertless :: int where
  "HostAgentCertless = 200"

definition HostAgentLegacy :: int where
  "HostAgentLegacy = 404"

text \<open>A Go function with no result returns the unit value here.\<close>

definition sendSegmentEvent :: "env \<Rightarrow> string \<Rightarrow> KeystoneAuth \<Rightarrow> bool \<Rightarrow> state \<Rightarrow> unit \<times> state" where
  "sendSegmentEvent E eventStr auth isError s =
     (let status = (if isError then ''FAIL'' else ''PASS'');
          errorStr = (if isError then eventStr else '''');
          suffixStr = (if isError then ''Prep-node : ERROR'' else ''Prep-node : '' @ eventStr)
      in case Segment_SendEvent E suffixStr auth status errorStr s of
           (err, s1) \<Rightarrow> if isError then ((), Segment_Close s1) else ((), s1))"

subsection \<open>Unattended upgrades\<close>

definition is_active_unattended :: "string list" where
  "is_active_unattended = bash_c ''systemctl is-active unattended-upgrades''"

definition stop_unattended :: "string list" where
  "stop_unattended = bash_c ''systemctl stop unattended-upgrades''"

definition start_unattended :: "string list" where
  "start_unattended = bash_c ''systemctl start unattended-upgrades''"

definition is_enabled_unattended :: "string list" where
  "is_enabled_unattended = bash_c ''systemctl is-enabled unattended-upgrades''"

definition disable_unattended :: "string list" where
  "disable_unattended = bash_c ''systemctl disable unattended-upgrades''"

definition enable_unattended :: "string list" where
  "enable_unattended = bash_c ''systemctl enable unattended-upgrades''"

definition StatusUnattendedUpdates :: "env \<Rightarrow> state \<Rightarrow> bool \<times> state" where
  "StatusUnattendedUpdates E s =
     (case exec_RunWithStdout E is_active_unattended s of
        ((output, err), s1) \<Rightarrow>
          (\<not> strings_Contains (strings_TrimSpace output) ''inactive'', s1))"

definition StopUnattendedUpdates :: "env \<Rightarrow> state \<Rightarrow> unit \<times> state" where
  "StopUnattendedUpdates E s =
     (case exec_RunWithStdout E stop_unattended s of ((out, err), s1) \<Rightarrow> ((), s1))"

definition StartUnattendedUpdates :: "env \<Rightarrow> state \<Rightarrow> unit \<times> state" where
  "StartUnattendedUpdates E s =
     (case exec_RunWithStdout E start_unattended s of ((out, err), s1) \<Rightarrow> ((), s1))"

definition IsEnabledUnattendedUpdates :: "env \<Rightarrow> state \<Rightarrow> bool \<times> state" where
  "IsEnabledUnattendedUpdates E s =
     (case exec_RunWithStdout E is_enabled_unattended s of
        ((output, err), s1) \<Rightarrow>
          (strings_Contains (strings_TrimSpace output) ''enabled'', s1))"

definition DisableUnattendedUpdates :: "env \<Rightarrow> state \<Rightarrow> unit \<times> state" where
  "DisableUnattendedUpdates E s =
     (case exec_RunWithStdout E disable_unattended s of ((out, err), s1) \<Rightarrow> ((), s1))"

definition EnableUnattendedUpdates :: "env \<Rightarrow> state \<Rightarrow> unit \<times> state" where
  "EnableUnattendedUpdates E s =
     (case exec_RunWithStdout E enable_unattended s of ((out, err), s1) \<Rightarrow> ((), s1))"

subsection \<open>Installing the host agent\<close>

text \<open>\<open>util.InstallerErrors[exitCode]\<close>: indexing a Go map with a key it does not hold
  gives the zero value of the element type, the empty string.\<close>

definition InstallerErrors_index :: "(int \<Rightarrow> string option) \<Rightarrow> int \<Rightarrow> string" where
  "InstallerErrors_index tbl exitCode = (case tbl exitCode of Some msg \<Rightarrow> msg | None \<Rightarrow> '''')"

definition echo_home :: "string list" where
  "echo_home = bash_c ''echo $HOME''"

definition mkdir_pf9 :: "string \<Rightarrow> string list" where
  "mkdir_pf9 home = [''mkdir'', ''-p'', home @ ''/pf9'']"

definition createDirToDownloadInstaller :: "env \<Rightarrow> state \<Rightarrow> (string \<times> error option) \<times> state" where
  "createDirToDownloadInstaller E s =
     (case exec_RunWithStdout E echo_home s of
        ((out, err), s1) \<Rightarrow>
          (let s2 = s1\<lparr>homeDir := strings_TrimSpace (strings_Trim out [CHR 0x0A, CHR 0x22])\<rparr>
           in case err of
                Some e \<Rightarrow> (('''', Some e), s2)
              | None \<Rightarrow>
                  (case exec_RunWithStdout E (mkdir_pf9 (homeDir s2)) s2 of
                     ((out2, err2), s3) \<Rightarrow> ((homeDir s2, None), s3))))"

definition rm_tmp_dir :: "string \<Rightarrow> string list" where
  "rm_tmp_dir home = bash_c (''rm -rf '' @ home @ ''/pf9/pf9-install-*'')"

definition rm_installer :: "string \<Rightarrow> string list" where
  "rm_installer home = bash_c (''rm -rf '' @ home @ ''/pf9/installer.sh'')"

definition rm_agent_install :: "string \<Rightarrow> string list" where
  "rm_agent_install home = bash_c (''rm -rf '' @ home @ ''/pf9/agent_install'')"

definition removeTempDirAndInstaller :: "env \<Rightarrow> state \<Rightarrow> unit \<times> state" where
  "removeTempDirAndInstaller E s =
     (case exec_RunWithStdout E (rm_tmp_dir (homeDir s)) s of
        ((out1, err1), s1) \<Rightarrow>
          (case exec_RunWithStdout E (rm_installer (homeDir s1)) s1 of
             ((out2, err2), s2) \<Rightarrow>
               (case exec_RunWithStdout E (rm_agent_install (homeDir s2)) s2 of
                  ((out3, err3), s3) \<Rightarrow> ((), s3))))"

text \<open>What both installers share after the download: making the script executable, the
  installer command line, its invocation (one remote command, or \<open>bash -c\<close> locally),
  and the report of a failure through the installer-error table.\<close>

definition chmod_installer :: "string \<Rightarrow> string list" where
  "chmod_installer home = bash_c (''chmod +x '' @ home @ ''/pf9/installer.sh'')"

definition installer_cmd :: "Config \<Rightarrow> string \<Rightarrow> string" where
  "installer_cmd ctx home =
     (if ProxyURL ctx \<noteq> '''' then
        home @ ''/pf9/installer.sh --proxy '' @ ProxyURL ctx @ '' --skip-os-check --no-ntp''
      else home @ ''/pf9/installer.sh --no-proxy --skip-os-check --no-ntp'')"

definition installer_argv :: "bool \<Rightarrow> string \<Rightarrow> string \<Rightarrow> string list" where
  "installer_argv remote cmd installOptions =
     (if remote then [''bash '' @ cmd @ '' '' @ installOptions]
      else bash_c (cmd @ '' '' @ installOptions))"

definition invoke_installer :: "env \<Rightarrow> string \<Rightarrow> string \<Rightarrow> state \<Rightarrow> (string \<times> error option) \<times> state" where
  "invoke_installer E cmd installOptions s =
     exec_RunWithStdout E (installer_argv (IsRemoteExecutor s) cmd installOptions) s"

definition report_installer_error :: "env \<Rightarrow> error \<Rightarrow> state \<Rightarrow> error option \<times> state" where
  "report_installer_error E err s =
     (let exitCode = snd (ExitCodeChecker E err);
          msg = InstallerErrors_index (InstallerErrors E) exitCode;
          s1 = emit (EvPrint [CHR 0x0A]) s;
          s2 = Println (''Error : '' @ msg) s1
      in (Some (Errorf (''error while running installer script: '' @ msg)), s2))"

definition discovery_url :: "string \<Rightarrow> string \<Rightarrow> string" where
  "discovery_url regionURL hostOS =
     ''https://'' @ regionURL @ ''/clarity/platform9-install-'' @ hostOS @ ''.sh''"

definition certless_download :: "Config \<Rightarrow> string \<Rightarrow> string \<Rightarrow> string \<Rightarrow> string list" where
  "certless_download ctx regionURL hostOS home =
     (let url = ''https://'' @ regionURL @ ''/clarity/platform9-install-'' @ hostOS @ ''.sh'';
          insecureDownload = (if AllowInsecure ctx then ''-k'' else '''')
      in bash_c (''curl '' @ insecureDownload @ '' --silent --show-error  '' @ url
                 @ '' -o  '' @ home @ ''/pf9/installer.sh''))"

definition certless_installOptions :: "Config \<Rightarrow> string \<Rightarrow> KeystoneAuth \<Rightarrow> string" where
  "certless_installOptions ctx regionURL auth =
     (if MfaToken ctx \<noteq> '''' then
        ''--no-project --controller='' @ regionURL @ ''  --user-token='' @ [CHR 0x27]
        @ Token auth @ [CHR 0x27]
      else
        ''--no-project --controller='' @ regionURL @ '' --username='' @ Username ctx
        @ '' --password='' @ [CHR 0x27] @ Password ctx @ [CHR 0x27])"

definition installHostAgentCertless ::
  "env \<Rightarrow> Config \<Rightarrow> string \<Rightarrow> KeystoneAuth \<Rightarrow> string \<Rightarrow> state \<Rightarrow> error option \<times> state" where
  "installHostAgentCertless E ctx regionURL auth hostOS s =
     (case createDirToDownloadInstaller E s of
        ((home, Some e), s1) \<Rightarrow> (Some e, s1)
      | ((home, None), s1) \<Rightarrow>
          (case exec_RunWithStdout E (certless_download ctx regionURL hostOS home) s1 of
             ((out, Some e), s2) \<Rightarrow> (Some e, s2)
           | ((out, None), s2) \<Rightarrow>
               (let installOptions = certless_installOptions ctx regionURL auth
                in case exec_RunWithStdout E (chmod_installer home) s2 of
                     ((out2, Some e), s3) \<Rightarrow> (Some e, s3)
                   | ((out2, None), s3) \<Rightarrow>
                       (case invoke_installer E (installer_cmd ctx home) installOptions s3 of
                          ((out3, err), s4) \<Rightarrow>
                            (case removeTempDirAndInstaller E s4 of
                               (u, s5) \<Rightarrow>
                                 (case err of
                                    Some e \<Rightarrow> report_installer_error E e s5
                                  | None \<Rightarrow> (None, s5)))))))"

definition legacy_download :: "KeystoneAuth \<Rightarrow> string \<Rightarrow> string \<Rightarrow> string \<Rightarrow> string list" where
  "legacy_download auth regionURL hostOS home =
     (let url = ''https://'' @ regionURL @ ''/private/platform9-install-'' @ hostOS @ ''.sh''
      in bash_c (''curl --insecure --silent --show-error -H '' @ [CHR 0x27]
                 @ ''X-Auth-Token:'' @ Token auth @ [CHR 0x27] @ '' '' @ url
                 @ '' -o '' @ home @ ''/pf9/installer.sh''))"

definition legacy_installOptions :: "KeystoneAuth \<Rightarrow> string \<Rightarrow> string" where
  "legacy_installOptions auth home =
     ''--insecure --project-name='' @ ProjectID auth @ '' 2>&1 | tee -a '' @ home @ ''/pf9/agent_install''"

definition installHostAgentLegacy ::
  "env \<Rightarrow> Config \<Rightarrow> string \<Rightarrow> KeystoneAuth \<Rightarrow> string \<Rightarrow> state \<Rightarrow> error option \<times> state" where
  "installHostAgentLegacy E ctx regionURL auth hostOS s =
     (case createDirToDownloadInstaller E s of
        ((home, Some e), s1) \<Rightarrow> (Some e, s1)
      | ((home, None), s1) \<Rightarrow>
          (let installOptions = legacy_installOptions auth home
           in case exec_RunWithStdout E (legacy_download auth regionURL hostOS home) s1 of
                ((out, Some e), s2) \<Rightarrow> (Some e, s2)
              | ((out, None), s2) \<Rightarrow>
                  (case exec_RunWithStdout E (chmod_installer home) s2 of
                     ((out2, Some e), s3) \<Rightarrow> (Some e, s3)
                   | ((out2, None), s3) \<Rightarrow>
                       (case invoke_installer E (installer_cmd ctx home) installOptions s3 of
                          ((out3, err), s4) \<Rightarrow>
                            (case removeTempDirAndInstaller E s4 of
                               (u, s5) \<Rightarrow>
                                 (case err of
                                    Some e \<Rightarrow> report_installer_error E e s5
                                  | None \<Rightarrow> (None, s5)))))))"

definition installHostAgent ::
  "env \<Rightarrow> Config \<Rightarrow> KeystoneAuth \<Rightarrow> string \<Rightarrow> state \<Rightarrow> error option \<times> state" where
  "installHostAgent E ctx auth hostOS s =
     (case keystone_FetchRegionFQDN E (Fqdn ctx) (Region ctx) auth s of
        ((regionURL, Some e), s1) \<Rightarrow> (Some (Errorf_err ''Unable to fetch URL: '' e), s1)
      | ((regionURL, None), s1) \<Rightarrow>
          (let url = discovery_url regionURL hostOS
           in case NewRequest E url of
                Some e \<Rightarrow> (Some (Errorf_err ''Unable to create a http request: '' e), s1)
              | None \<Rightarrow>
                  (case client_Do E url s1 of
                     ((StatusCode, Some e), s2) \<Rightarrow>
                       (Some (Errorf_err ''Unable to send a request to clientL '' e), s2)
                   | ((StatusCode, None), s2) \<Rightarrow>
                       (let s3 = s2\<lparr>HostAgent := StatusCode\<rparr>
                        in if StatusCode = 404 then
                             installHostAgentLegacy E ctx regionURL auth hostOS s3
                           else if StatusCode = 200 then
                             installHostAgentCertless E ctx regionURL auth hostOS s3
                           else
                             (Some (Errorf (''Invalid status code when identifiying hostagent type: ''
                                            @ fmt_d StatusCode)), s3)))))"

subsection \<open>Packages already present\<close>

definition dpkg_query :: "string \<Rightarrow> string list" where
  "dpkg_query p = bash_c (''dpkg -l | { grep -i '' @ [CHR 0x27] @ p @ [CHR 0x27] @ '' || true; }'')"

definition yum_query :: "string \<Rightarrow> string list" where
  "yum_query p = bash_c (''yum list installed | { grep -i '' @ [CHR 0x27] @ p @ [CHR 0x27] @ '' || true; }'')"

fun pf9PackagesPresent_loop ::
  "env \<Rightarrow> (string \<Rightarrow> string list) \<Rightarrow> string list \<Rightarrow> string \<Rightarrow> state \<Rightarrow> (bool \<times> string) \<times> state" where
  "pf9PackagesPresent_loop E query [] out s = ((False, out), s)"
| "pf9PackagesPresent_loop E query (p # ps) out s =
     (case exec_RunWithStdout E (query p) s of
        ((out', err), s1) \<Rightarrow>
          if out' \<noteq> '''' then ((True, out'), s1)
          else pf9PackagesPresent_loop E query ps out' s1)"

definition pf9PackagesPresent :: "env \<Rightarrow> string \<Rightarrow> state \<Rightarrow> bool \<times> state" where
  "pf9PackagesPresent E hostOS s =
     (case pf9PackagesPresent_loop E (if hostOS = ''debian'' then dpkg_query else yum_query)
             (Pf9Packages E) '''' s of
        ((True, out), s1) \<Rightarrow> (True, s1)
      | ((False, out), s1) \<Rightarrow> (\<not> (out = ''''), s1))"

definition CheckSudo :: "env \<Rightarrow> state \<Rightarrow> bool \<times> state" where
  "CheckSudo E s =
     (case exec_RunWithStdout E [''-l''] s of ((out, err), s1) \<Rightarrow> (err = None, s1))"

subsection \<open>PrepNode\<close>

text \<open>Deferred calls of \<open>PrepNode\<close>, most recently deferred first; they run in that
  order when the function returns or panics.\<close>

datatype deferred = DeferStartUnattendedUpdates | DeferEnableUnattendedUpdates

fun run_deferred :: "env \<Rightarrow> deferred list \<Rightarrow> state \<Rightarrow> unit \<times> state" where
  "run_deferred E [] s = ((), s)"
| "run_deferred E (DeferStartUnattendedUpdates # ds) s =
     (case StartUnattendedUpdates E s of (u, s1) \<Rightarrow> run_deferred E ds s1)"
| "run_deferred E (DeferEnableUnattendedUpdates # ds) s =
     (case EnableUnattendedUpdates E s of (u, s1) \<Rightarrow> run_deferred E ds s1)"

text \<open>Lines 83 to 93: the unattended-upgrades block of a debian host.\<close>

definition PrepNode_unattended :: "env \<Rightarrow> state \<Rightarrow> deferred list \<times> state" where
  "PrepNode_unattended E s =
     (case StatusUnattendedUpdates E s of
        (active, s1) \<Rightarrow>
          if active then
            (case StopUnattendedUpdates E s1 of
               (u, s2) \<Rightarrow>
                 (case IsEnabledUnattendedUpdates E s2 of
                    (enabled, s3) \<Rightarrow>
                      if enabled then
                        (case DisableUnattendedUpdates E s3 of
                           (u', s4) \<Rightarrow>
                             ([DeferEnableUnattendedUpdates, DeferStartUnattendedUpdates], s4))
                      else ([DeferStartUnattendedUpdates], s3)))
          else ([], s1))"

definition tick :: string where
  "tick = [CHR 0xE2, CHR 0x9C, CHR 0x93, CHR '' '']"

definition grep_host_id :: "string list" where
  "grep_host_id = bash_c (''grep host_id /etc/pf9/host_id.conf | cut -d '' @ [CHR 0x27] @ ''=''
                          @ [CHR 0x27] @ '' -f2'')"

text \<open>Lines 132 to 173: host identity extraction and authorisation. \<open>err.Error()\<close> on a
  nil \<open>err\<close> is a nil dereference, a run-time panic.\<close>

definition PrepNode_initialise ::
  "env \<Rightarrow> Config \<Rightarrow> KeystoneAuth \<Rightarrow> state \<Rightarrow> error option outcome \<times> state" where
  "PrepNode_initialise E ctx auth s =
     (case sendSegmentEvent E ''Initialising host - 3'' auth False s of
        (u, s1) \<Rightarrow>
          (case exec_RunWithStdout E grep_host_id s1 of
             ((out, err), s2) \<Rightarrow>
               (let output = strings_TrimSpace out
                in if err \<noteq> None \<or> output = '''' then
                     (case err of
                        None \<Rightarrow>
                          (Panic ''runtime error: invalid memory address or nil pointer dereference'', s2)
                      | Some e \<Rightarrow>
                          (let errStr = ''Error: Unable to fetch host ID. '' @ Error e
                           in case sendSegmentEvent E errStr auth True s2 of
                                (u, s3) \<Rightarrow> (Returned (Some (Errorf errStr)), s3)))
                   else
                     (let s3 = Println (Green E tick @ ''Initialised host successfully'') s2
                      in if SkipKube s3 then
                           (case sendSegmentEvent E ''Successful'' auth False s3 of
                              (u, s4) \<Rightarrow> (Returned None, s4))
                         else
                           (let hostID = strings_TrimSuffix output [CHR 0x0A];
                                s4 = emit (EvSleep (WaitPeriod ctx)) s3
                            in case Resmgr_AuthorizeHost E hostID (Token auth) s4 of
                                 (Some e, s5) \<Rightarrow>
                                   (let errStr = ''Error: Unable to authorise host. '' @ Error e
                                    in case sendSegmentEvent E errStr auth True s5 of
                                         (u, s6) \<Rightarrow> (Returned (Some (Errorf errStr)), s6))
                               | (None, s5) \<Rightarrow>
                                   (case sendSegmentEvent E ''Successful'' auth False s5 of
                                      (u, s6) \<Rightarrow>
                                        (Returned None,
                                         Println (Green E tick
                                           @ ''Host successfully attached to the Platform9 control-plane'')
                                           s6)))))))"

text \<open>Lines 101 to 130, then the initialisation above.\<close>

definition already_present_message :: string where
  "already_present_message =
     [CHR 0x0A, CHR 0x0A] @ ''Platform9 packages already present on the host.''
     @ [CHR 0x0A] @ ''Please uninstall these packages if you want to prep the node again.''
     @ [CHR 0x0A] @ ''Instructions to uninstall these are at:''
     @ [CHR 0x0A] @ ''https://docs.platform9.com/kubernetes/pmk-cli-unistall-hostagent''"

definition PrepNode_install ::
  "env \<Rightarrow> Config \<Rightarrow> KeystoneAuth \<Rightarrow> string \<Rightarrow> state \<Rightarrow> error option outcome \<times> state" where
  "PrepNode_install E ctx auth hostOS s =
     (case pf9PackagesPresent E hostOS s of
        (present, s1) \<Rightarrow>
          if present then
            (let errStr = already_present_message
             in case sendSegmentEvent E ''Error: Platform9 packages already present.'' auth True s1 of
                  (u, s2) \<Rightarrow> (Returned (Some (Errorf errStr)), s2))
          else
            (case sendSegmentEvent E ''Installing hostagent - 2'' auth False s1 of
               (u, s2) \<Rightarrow>
                 (case installHostAgent E ctx auth hostOS s2 of
                    (Some e, s3) \<Rightarrow>
                      (let errStr = ''Error: Unable to install hostagent. '' @ Error e
                       in case sendSegmentEvent E errStr auth True s3 of
                            (u, s4) \<Rightarrow> (Returned (Some (Errorf errStr)), s4))
                  | (None, s3) \<Rightarrow>
                      (let s4 = (if HostAgent s3 = HostAgentCertless then
                                   Println (Green E tick @ ''Platform9 packages installed successfully'') s3
                                 else if HostAgent s3 = HostAgentLegacy then
                                   Println (Green E tick @ ''Hostagent installed successfully'') s3
                                 else s3)
                       in PrepNode_initialise E ctx auth s4))))"

text \<open>The body of \<open>PrepNode\<close> up to its return, with the calls it deferred.\<close>

definition PrepNode_body ::
  "env \<Rightarrow> Config \<Rightarrow> KeystoneAuth \<Rightarrow> state \<Rightarrow> (error option outcome \<times> deferred list) \<times> state" where
  "PrepNode_body E ctx auth s =
     (case sendSegmentEvent E ''Starting prep-node'' auth False s of
        (u, s1) \<Rightarrow>
      case ValidatePlatform E s1 of
           ((hostOS, Some e), s2) \<Rightarrow>
             (let errStr = ''Error: Invalid host OS. '' @ Error e
              in case sendSegmentEvent E errStr auth True s2 of
                   (u, s3) \<Rightarrow> ((Returned (Some (Errorf errStr)), []), s3))
         | ((hostOS, None), s2) \<Rightarrow>
             if hostOS = ''debian'' then
               (case debian_CheckIfdpkgISLock E s2 of
                  ((result, lockErr), s3) \<Rightarrow>
                    (case PrepNode_unattended E s3 of
                       (ds, s4) \<Rightarrow>
                         if \<not> result then
                           (let s5 = emit (EvLog ''error''
                                       ''Dpkg lock is acquired by another process while prep-node was running'') s4
                            in ((Returned (Some (Errorf ''Dpkg is under lock'')), ds), s5))
                         else
                           (case PrepNode_install E ctx auth hostOS s4 of
                              (r, s5) \<Rightarrow> ((r, ds), s5))))
             else
               (case PrepNode_install E ctx auth hostOS s2 of
                  (r, s3) \<Rightarrow> ((r, []), s3)))"

definition PrepNode ::
  "env \<Rightarrow> Config \<Rightarrow> KeystoneAuth \<Rightarrow> state \<Rightarrow> error option outcome \<times> state" where
  "PrepNode E ctx auth s =
     (case PrepNode_body E ctx auth s of
        ((Fatal m, ds), s1) \<Rightarrow> (Fatal m, s1)
      | ((r, ds), s1) \<Rightarrow> (case run_deferred E ds s1 of (u, s2) \<Rightarrow> (r, s2)))"

section \<open>Decommissioning (pkg/pmk/decomissionNode.go)\<close>

definition rm_rf :: "string \<Rightarrow> string" where
  "rm_rf path = ''rm -rf '' @ path"

definition removePf9Installation :: "env \<Rightarrow> state \<Rightarrow> state" where
  "removePf9Installation E s =
     (let s1 = Println ''Removing /etc/pf9 logs'' s;
          s2 = exec_RunCommandWait (rm_rf (EtcDir E)) s1;
          s3 = Println ''Removing /var/opt/pf9 logs'' s2;
          s4 = exec_RunCommandWait (rm_rf (OptDir E)) s3;
          s5 = Println ''Removing pf9 HOME dir'' s4;
          s6 = exec_RunCommandWait ''rm -rf $HOME/pf9'' s5
      in s6)"

definition stop_service :: "string \<Rightarrow> string list" where
  "stop_service service = bash_c (''sudo systemctl stop '' @ service)"

definition services :: "string list" where
  "services = [''pf9-hostagent'', ''pf9-nodeletd'', ''pf9-kubelet'']"

definition purge_hostagent :: "string \<Rightarrow> string list" where
  "purge_hostagent hostOS =
     (if hostOS = ''debian'' then bash_c ''sudo apt-get purge pf9-hostagent -y''
      else bash_c ''sudo yum remove pf9-hostagent -y'')"

fun stop_services :: "env \<Rightarrow> string list \<Rightarrow> state \<Rightarrow> unit \<times> state" where
  "stop_services E [] s = ((), s)"
| "stop_services E (service # rest) s =
     (case exec_RunWithStdout E (stop_service service) s of
        ((out, err), s1) \<Rightarrow> stop_services E rest s1)"

fun remove_files :: "string list \<Rightarrow> state \<Rightarrow> state" where
  "remove_files [] s = s"
| "remove_files (file # files) s = remove_files files (exec_RunCommandWait (rm_rf file) s)"

definition removeHostagent :: "env \<Rightarrow> string \<Rightarrow> state \<Rightarrow> unit \<times> state" where
  "removeHostagent E hostOS s =
     (let s1 = Println ''Removing pf9-hostagent (this might take a few minutes...)'' s
      in case stop_services E services s1 of
           (u, s2) \<Rightarrow>
             (case exec_RunWithStdout E (purge_hostagent hostOS) s2 of
                ((out, err), s3) \<Rightarrow>
                  (let s4 = (if err \<noteq> None then s3 else Println ''Removed hostagent'' s3);
                       s5 = Println ''Removing logs...'' s4
                   in ((), remove_files (Files E) s5))))"

text \<open>Lines 126 to 131 and, the same again, 153 to 158.\<close>

definition finish_decommission :: "env \<Rightarrow> bool \<Rightarrow> state \<Rightarrow> state" where
  "finish_decommission E removePf9 s =
     (let s1 = (if removePf9 then removePf9Installation E s else s);
          s2 = Println (''Node decommissioning started....This may take a few minutes....''
                        @ ''Check the latest status in UI'') s1
      in emit (EvSleep 50) s2)"

text \<open>Lines 103 to 162: what follows the check that the host agent is installed;
  \<open>err\<close> is what that check returned.\<close>

definition DecommissionNode_after_check ::
  "env \<Rightarrow> KeystoneAuth \<Rightarrow> string \<Rightarrow> string list \<Rightarrow> bool \<Rightarrow> error option \<Rightarrow> state
     \<Rightarrow> unit outcome \<times> state" where
  "DecommissionNode_after_check E auth hostOS hostID removePf9 err s =
     (if err = None then
        (case (case hostID of
                 [] \<Rightarrow> ((False, \<lparr>ClusterName = '''', ClusterUuid = ''''\<rparr>), s)
               | h # hs \<Rightarrow>
                   (case Qbert_GetNodeInfo E (Token auth) (ProjectID auth) h s of
                      (n, s0) \<Rightarrow> ((True, n), s0))) of
           ((nodeConnectedToDU, nodeInfo), s1) \<Rightarrow>
             if ClusterName nodeInfo = '''' then
               (let s2 = Println ''Node is not connected to any cluster'' s1
                in if nodeConnectedToDU then
                     (case hostID of
                        [] \<Rightarrow> (Panic ''runtime error: index out of range [0] with length 0'', s2)
                      | h # hs \<Rightarrow>
                          (case Qbert_DeauthoriseNode E h (Token auth) s2 of
                             (Some e, s3) \<Rightarrow> (Fatal ''Failed to deauthorize node'', s3)
                           | (None, s3) \<Rightarrow>
                               (let s4 = Println ''Deauthorized node from UI'' s3
                                in case removeHostagent E hostOS s4 of
                                     (u, s5) \<Rightarrow> (Returned (), finish_decommission E removePf9 s5))))
                   else
                     (case removeHostagent E hostOS s2 of
                        (u, s3) \<Rightarrow> (Returned (), finish_decommission E removePf9 s3)))
             else
               (let s2 = emit (EvPrint (''Node is connected to '' @ ClusterName nodeInfo @ '' cluster''
                                        @ [CHR 0x0A])) s1;
                    s3 = Println ''Detaching node from cluster...'' s2
                in case hostID of
                     [] \<Rightarrow> (Panic ''runtime error: index out of range [0] with length 0'', s3)
                   | h # hs \<Rightarrow>
                       (case Qbert_DetachNode E (ClusterUuid nodeInfo) (ProjectID auth) (Token auth) h s3 of
                          (Some e, s4) \<Rightarrow> (Fatal ''Failed to detach host from cluster'', s4)
                        | (None, s4) \<Rightarrow>
                            (let s5 = Println ''Detached node from cluster'' s4;
                                 s6 = Println ''Deauthorizing node from UI...'' s5
                             in case Qbert_DeauthoriseNode E h (Token auth) s6 of
                                  (Some e, s7) \<Rightarrow> (Fatal ''Failed to deauthorize node'', s7)
                                | (None, s7) \<Rightarrow>
                                    (let s8 = Println ''Deauthorized node from UI'' s7
                                     in case removeHostagent E hostOS s8 of
                                          (u, s9) \<Rightarrow>
                                            (Returned (), finish_decommission E removePf9 s9))))))
      else (Returned (), Println ''Host is not connected to Platform9 Management Plane'' s))"

definition hostname_I :: "string list" where
  "hostname_I = bash_c ''hostname -I''"

definition dpkg_check :: "string list" where
  "dpkg_check = bash_c ''dpkg -s pf9-hostagent''"

definition yum_check :: "string list" where
  "yum_check = bash_c ''yum list installed pf9-hostagent''"

definition hostagent_check :: "string \<Rightarrow> string list" where
  "hostagent_check hostOS = (if hostOS = ''debian'' then dpkg_check else yum_check)"

definition DecommissionNode :: "env \<Rightarrow> Config \<Rightarrow> NodeConfig \<Rightarrow> bool \<Rightarrow> state \<Rightarrow> unit outcome \<times> state" where
  "DecommissionNode E cfg nc removePf9 s =
     (case cmdexec_GetExecutor E (ProxyURL cfg) nc s of
        (Some e, s1) \<Rightarrow> (Fatal (''Unable to create executor: '' @ Error e @ [CHR 0x0A]), s1)
      | (None, s1) \<Rightarrow>
          (case client_NewClient E (Fqdn cfg) (AllowInsecure cfg) s1 of
             (Some e, s2) \<Rightarrow> (Fatal (''Unable to create client: '' @ Error e @ [CHR 0x0A]), s2)
           | (None, s2) \<Rightarrow>
               (case Keystone_GetAuth E (Username cfg) (Password cfg) (Tenant cfg) (MfaToken cfg) s2 of
                  ((auth, authErr), s3) \<Rightarrow>
                    (case exec_RunWithStdout E hostname_I s3 of
                       ((ip0, err), s4) \<Rightarrow>
                         (case strings_Split ip0 (CHR '' '') of
                            [] \<Rightarrow> (Panic ''runtime error: index out of range [0] with length 0'', s4)
                          | ip1 # rest \<Rightarrow>
                              (let ip = strings_TrimSpace ip1
                               in if err \<noteq> None then (Fatal ''ERROR : unable to get host ip'', s4)
                                  else
                                    (case ValidatePlatform E s4 of
                                       ((hostOS, Some e), s5) \<Rightarrow> (Fatal ''Error getting OS version'', s5)
                                     | ((hostOS, None), s5) \<Rightarrow>
                                         (let nodeIPs = [] @ [ip]
                                          in case Resmgr_GetHostId E (Token auth) nodeIPs s5 of
                                               (hostID, s6) \<Rightarrow>
                                                 (case exec_RunWithStdout E (hostagent_check hostOS) s6 of
                                                    ((out, err2), s7) \<Rightarrow>
                                                      DecommissionNode_after_check E auth hostOS hostID
                                                        removePf9 err2 s7)))))))))"

section \<open>Attaching (cmd/attachNode.go)\<close>

definition hostId_cmd :: "string \<Rightarrow> string \<Rightarrow> string \<Rightarrow> string" where
  "hostId_cmd tkn fqdn ip =
     ''curl -sH '' @ tkn @ '' -X GET '' @ fqdn @ ''/resmgr/v1/hosts | jq -r '' @ [CHR 0x27]
     @ ''.[] | select(.info.responding==true) | select(.extensions.ip_address.data[]==('' @ ip
     @ '')) | .id'' @ [CHR 0x27] @ '' ''"

definition quoted :: "string \<Rightarrow> string" where
  "quoted x = [CHR 0x22] @ x @ [CHR 0x22]"

fun hostId_loop ::
  "env \<Rightarrow> string \<Rightarrow> string \<Rightarrow> string list \<Rightarrow> string list \<Rightarrow> state
     \<Rightarrow> (string list \<times> error option) \<times> state" where
  "hostId_loop E fqdn tkn [] hostIdsList s = ((hostIdsList, None), s)"
| "hostId_loop E fqdn tkn (ip0 # IPs) hostIdsList s =
     (let ip = quoted ip0
      in case exec_RunWithStdout E (bash_c (hostId_cmd tkn fqdn ip)) s of
           ((out, err), s1) \<Rightarrow>
             (let hostid = strings_TrimSpace (strings_Trim out [CHR 0x0A])
              in if length hostid = 0 then
                   (let e = Errorf (''Unable to find host with IP '' @ ip
                                    @ '' please try again or run prep-node first'');
                        s2 = s1\<lparr>Errhostid := Some e\<rparr>
                    in ((hostIdsList, Errhostid s2), s2))
                 else hostId_loop E fqdn tkn IPs (hostIdsList @ [hostid]) s1))"

definition hostId ::
  "env \<Rightarrow> string \<Rightarrow> string \<Rightarrow> string list \<Rightarrow> state \<Rightarrow> (string list \<times> error option) \<times> state" where
  "hostId E fqdn token IPs s =
     hostId_loop E fqdn (quoted (''X-Auth-Token: '' @ token)) IPs [] s"

definition cluster_Status_cmd :: "string \<Rightarrow> string \<Rightarrow> string \<Rightarrow> string \<Rightarrow> string" where
  "cluster_Status_cmd tkn fqdn projectID clusterID =
     ''curl -sH '' @ tkn @ '' -X GET '' @ fqdn @ ''/qbert/v3/'' @ projectID @ ''/clusters/''
     @ clusterID @ '' | jq '' @ [CHR 0x27] @ ''.status'' @ [CHR 0x27] @ '' ''"

text \<open>A \<open>Fatalf\<close> whose format holds no verb is modelled by the format text.\<close>

definition cluster_Status ::
  "env \<Rightarrow> string \<Rightarrow> string \<Rightarrow> string \<Rightarrow> string \<Rightarrow> state \<Rightarrow> string outcome \<times> state" where
  "cluster_Status E fqdn token projectID clusterID s =
     (let tkn = quoted (''X-Auth-Token: '' @ token)
      in case exec_RunWithStdout E (bash_c (cluster_Status_cmd tkn fqdn projectID clusterID)) s of
           ((status, Some e), s1) \<Rightarrow> (Fatal ''Unable to get cluster status : '', s1)
         | ((status, None), s1) \<Rightarrow>
             (Returned (strings_TrimSpace (strings_Trim status [CHR 0x0A, CHR 0x22])), s1))"

text \<open>\<open>c.Segment.SendEvent\<close> as \<open>attachNodeRun\<close> calls it: a failure is logged.\<close>

definition attach_SendEvent ::
  "env \<Rightarrow> string \<Rightarrow> KeystoneAuth \<Rightarrow> string \<Rightarrow> state \<Rightarrow> unit \<times> state" where
  "attach_SendEvent E name auth status s =
     (case Segment_SendEvent E name auth status '''' s of
        (Some e, s1) \<Rightarrow>
          ((), emit (EvLog ''error''
                      (''Unable to send Segment event for attach node. Error: '' @ Error e)) s1)
      | (None, s1) \<Rightarrow> ((), s1))"

text \<open>Lines 126 to 139 (workers) and 141 to 154 (masters): one role group's attach call.
  \<open>Role\<close> is the capitalised role of the messages.\<close>

definition attach_group ::
  "env \<Rightarrow> KeystoneAuth \<Rightarrow> string \<Rightarrow> string list \<Rightarrow> string \<Rightarrow> string \<Rightarrow> state
     \<Rightarrow> unit \<times> state" where
  "attach_group E auth cluster_uuid hostIds role Role s =
     (if length hostIds > 0 then
        (case Qbert_AttachNode E cluster_uuid (ProjectID auth) (Token auth) hostIds role s of
           (Some e, s1) \<Rightarrow>
             (case attach_SendEvent E ''Attaching-node'' auth (''Failed to attach '' @ role @ '' node'') s1 of
                (u, s2) \<Rightarrow>
                  ((), emit (EvLog ''info'' (''Encountered an error while attaching '' @ role
                                            @ '' node to a Kubernetes cluster : '' @ Error e)) s2))
         | (None, s1) \<Rightarrow>
             (case attach_SendEvent E ''Attaching-node'' auth (Role @ '' node attached'') s1 of
                (u, s2) \<Rightarrow>
                  ((), emit (EvLog ''info'' (Role @ '' node(s) '' @ fmt_v_strings hostIds
                                            @ '' attached to cluster'')) s2)))
      else ((), s))"

text \<open>Lines 99 to 157: resolve the host identities, check the cluster, attach.\<close>

definition attachNodeRun_attach ::
  "env \<Rightarrow> Config \<Rightarrow> KeystoneAuth \<Rightarrow> state \<Rightarrow> unit outcome \<times> state" where
  "attachNodeRun_attach E cfg auth s =
     (let projectId = ProjectID auth;
          token = Token auth
      in case (if length (masterIPs s) > 0 then hostId E (Fqdn cfg) token (masterIPs s) s
               else (([], None), s)) of
           ((master_hostIds, Some e), s1) \<Rightarrow> (Fatal (Error e), s1)
         | ((master_hostIds, None), s1) \<Rightarrow>
             (case (if length (workerIPs s1) > 0 then hostId E (Fqdn cfg) token (workerIPs s1) s1
                    else (([], None), s1)) of
                ((worker_hostIds, Some e), s2) \<Rightarrow> (Fatal (Error e), s2)
              | ((worker_hostIds, None), s2) \<Rightarrow>
                  (case Qbert_CheckClusterExists E (clusterName s2) projectId token s2 of
                     (cluster_uuid, s3) \<Rightarrow>
                       (case cluster_Status E (Fqdn cfg) token projectId cluster_uuid s3 of
                          (Fatal m, s4) \<Rightarrow> (Fatal m, s4)
                        | (Panic m, s4) \<Rightarrow> (Panic m, s4)
                        | (Returned clusterStatus, s4) \<Rightarrow>
                            if clusterStatus = ''ok'' then
                              (case attach_SendEvent E ''Starting Attach-node'' auth '''' s4 of
                                 (u, s5) \<Rightarrow>
                                   (case attach_group E auth cluster_uuid worker_hostIds
                                           ''worker'' ''Worker'' s5 of
                                      (u', s6) \<Rightarrow>
                                        (case attach_group E auth cluster_uuid master_hostIds
                                                ''master'' ''Master'' s6 of
                                           (u'', s7) \<Rightarrow> (Returned (), s7))))
                            else (Fatal (''Cluster is not ready. cluster status is '' @ clusterStatus), s4)))))"

text \<open>\<open>attachNodeRun\<close>; \<open>noPrompt\<close> is \<open>cmd.Flags().Changed("no-prompt")\<close>:
  \<open>config.LoadConfig\<close> is called when it is set, \<open>config.LoadConfigInteractive\<close> otherwise.
  The deferred \<open>c.Segment.Close()\<close> runs when the function returns.\<close>

definition attachNodeRun :: "env \<Rightarrow> bool \<Rightarrow> state \<Rightarrow> unit outcome \<times> state" where
  "attachNodeRun E noPrompt s =
     (let detachedMode = noPrompt
      in case cmdexec_CheckRemote E (cmd_nc s) s of
           (remote, s1) \<Rightarrow>
             (case (if remote then
                      (case config_ValidateNodeConfig E (cmd_nc s1) (\<not> detachedMode) s1 of
                         ((ok, nc'), s1') \<Rightarrow> (ok, s1'\<lparr>cmd_nc := nc'\<rparr>))
                    else (True, s1)) of
                (ok, s2) \<Rightarrow>
                  if \<not> ok then
                    (Fatal (''Invalid remote node config (Username/Password/IP), use '' @ [CHR 0x27]
                            @ ''single quotes'' @ [CHR 0x27] @ '' to pass password''), s2)
                  else
                    (let cfg0 = \<lparr>Fqdn = '''', Username = '''', Password = '''', Tenant = '''', Region = '''',
                                 WaitPeriod = 60, AllowInsecure = False, ProxyURL = '''',
                                 MfaToken = MFA (attachconfig s2)\<rparr>
                     in case config_LoadConfig E (\<not> detachedMode) (Pf9DBLoc E) cfg0 (cmd_nc s2) s2 of
                          ((cfg, Some e), s3) \<Rightarrow>
                            (Fatal (''Unable to load the context: '' @ Error e @ [CHR 0x0A]), s3)
                        | ((cfg, None), s3) \<Rightarrow>
                            (let s4 = Println (Green E tick @ ''Loaded Config Successfully'') s3
                             in case cmdexec_GetExecutor E (ProxyURL cfg) (cmd_nc s4) s4 of
                                  (Some e, s5) \<Rightarrow>
                                    (Fatal (''Unable to create executor: '' @ Error e @ [CHR 0x0A]), s5)
                                | (None, s5) \<Rightarrow>
                                    (case client_NewClient E (Fqdn cfg) (AllowInsecure cfg) s5 of
                                       (Some e, s6) \<Rightarrow>
                                         (Fatal (''Unable to create client: '' @ Error e @ [CHR 0x0A]), s6)
                                     | (None, s6) \<Rightarrow>
                                         if length (masterIPs s6) = 0 \<and> length (workerIPs s6) = 0 then
                                           (Fatal ''No nodes were specified to be attached to the cluster'', s6)
                                         else
                                           (case Keystone_GetAuth E (Username cfg) (Password cfg)
                                                   (Tenant cfg) (MfaToken cfg) s6 of
                                              ((auth, authErr), s7) \<Rightarrow>
                                                (case attachNodeRun_attach E cfg auth s7 of
                                                   (Returned u, s8) \<Rightarrow> (Returned u, Segment_Close s8)
                                                 | (Panic m, s8) \<Rightarrow> (Panic m, Segment_Close s8)
                                                 | (Fatal m, s8) \<Rightarrow> (Fatal m, s8))))))))"

section \<open>Observing a run\<close>

text \<open>The events a call added to the trace, and projections of a list of events: the
  command lines given to \<open>RunWithStdout\<close>, those given to \<open>RunCommandWait\<close>, the
  discovery requests, and the calls to the control plane.\<close>

definition new_events :: "state \<Rightarrow> state \<Rightarrow> event list" where
  "new_events s s' = drop (length (trace s)) (trace s')"

fun argv_of :: "event \<Rightarrow> string list list" where
  "argv_of (EvRunWithStdout argv out err) = [argv]"
| "argv_of e = []"

definition exec_argvs :: "event list \<Rightarrow> string list list" where
  "exec_argvs evs = concat (map argv_of evs)"

fun wait_of :: "event \<Rightarrow> string list" where
  "wait_of (EvRunCommandWait cmd) = [cmd]"
| "wait_of e = []"

definition wait_cmds :: "event list \<Rightarrow> string list" where
  "wait_cmds evs = concat (map wait_of evs)"


fun is_cluster_call :: "event \<Rightarrow> bool" where
  "is_cluster_call (EvDetachNode uuid projectID token hostID r) = True"
| "is_cluster_call (EvDeauthoriseNode hostID token r) = True"
| "is_cluster_call e = False"

fun is_attach_call :: "event \<Rightarrow> bool" where
  "is_attach_call (EvAttachNode uuid projectID token hostIds role r) = True"
| "is_attach_call e = False"

fun is_authorize_call :: "event \<Rightarrow> bool" where
  "is_authorize_call (EvAuthorizeHost hostID token r) = True"
| "is_authorize_call e = False"

text \<open>Calls to the control plane: the authentication service, the resource manager
  and the cluster manager.\<close>

fun is_api_call :: "event \<Rightarrow> bool" where
  "is_api_call (EvFetchRegionFQDN fqdn region auth url err) = True"
| "is_api_call (EvGetAuth user pass tenant mfa auth err) = True"
| "is_api_call (EvGetHostId token ips ids) = True"
| "is_api_call (EvAuthorizeHost hostID token r) = True"
| "is_api_call (EvGetNodeInfo token projectID hostID n) = True"
| "is_api_call (EvDeauthoriseNode hostID token r) = True"
| "is_api_call (EvDetachNode uuid projectID token hostID r) = True"
| "is_api_call (EvCheckClusterExists name projectID token uuid) = True"
| "is_api_call (EvAttachNode uuid projectID token hostIds role r) = True"
| "is_api_call e = False"


text \<open>The second state continues the first: its trace is the first one's followed by
  events that all satisfy \<open>P\<close>, and only the package-level variables the code assigns
  (\<open>HostAgent\<close>, \<open>homeDir\<close>, \<open>Errhostid\<close>, \<open>nc\<close>) may differ.\<close>

definition continues :: "(event \<Rightarrow> bool) \<Rightarrow> state \<Rightarrow> state \<Rightarrow> bool" where
  "continues P s s' =
     (s' = s\<lparr>HostAgent := HostAgent s', homeDir := homeDir s', Errhostid := Errhostid s',
               cmd_nc := cmd_nc s', trace := trace s'\<rparr>
      \<and> take (length (trace s)) (trace s') = trace s \<and> length (trace s) \<le> length (trace s')
      \<and> list_all P (new_events s s'))"

text \<open>The steps of a decommission without their answers, in order: commands, removals
  and calls to the cluster manager.\<close>

datatype step = Run "string list" | Wait string | Detach | Deauthorise | NodeInfo

fun step_of :: "event \<Rightarrow> step list" where
  "step_of (EvRunWithStdout argv out err) = [Run argv]"
| "step_of (EvRunCommandWait cmd) = [Wait cmd]"
| "step_of (EvDetachNode uuid projectID token hostID r) = [Detach]"
| "step_of (EvDeauthoriseNode hostID token r) = [Deauthorise]"
| "step_of (EvGetNodeInfo token projectID hostID n) = [NodeInfo]"
| "step_of e = []"

definition steps :: "event list \<Rightarrow> step list" where
  "steps evs = concat (map step_of evs)"

section \<open>Sample hosts\<close>

text \<open>A host on which every command succeeds with no output and every service call
  succeeds; the runs below vary it.\<close>

definition quiet_env :: env where
  "quiet_env =
     \<lparr>RunWithStdout = (\<lambda>h argv. ('''', None)),
      FetchRegionFQDN = (\<lambda>h fqdn region auth. (''du.example.com'', None)),
      NewRequest = (\<lambda>url. None),
      Do = (\<lambda>h url. (200, None)),
      GetAuth = (\<lambda>h user pass tenant mfa. (\<lparr>Token = ''tok'', ProjectID = ''proj''\<rparr>, None)),
      GetHostId = (\<lambda>h token ips. []),
      AuthorizeHost = (\<lambda>h hostID token. None),
      GetNodeInfo = (\<lambda>h token projectID hostID. \<lparr>ClusterName = '''', ClusterUuid = ''''\<rparr>),
      DeauthoriseNode = (\<lambda>h hostID token. None),
      DetachNode = (\<lambda>h uuid projectID token hostID. None),
      CheckClusterExists = (\<lambda>h name projectID token. ''uuid-1''),
      AttachNode = (\<lambda>h uuid projectID token ids role. None),
      SendEvent = (\<lambda>h name auth status errStr. None),
      GetExecutor = (\<lambda>h proxy nc. None),
      NewClient = (\<lambda>h fqdn insecure. None),
      CheckIfdpkgISLock = (\<lambda>h. (True, None)),
      centos_Version = (\<lambda>h. (''redhat'', None)),
      debian_Version = (\<lambda>h. (''debian'', None)),
      CheckRemote = (\<lambda>h nc. False),
      ValidateNodeConfig = (\<lambda>h nc prompt. (True, nc)),
      LoadConfig = (\<lambda>h interactive loc cfg nc. (cfg, None)),
      ExitCodeChecker = (\<lambda>e. ('''', case ExitStatus e of Some c \<Rightarrow> c | None \<Rightarrow> 0)),
      InstallerErrors = map_of [(1, ''General error''), (2, ''Connection error'')],
      Centos = ''centos'',
      Redhat = ''red hat'',
      Ubuntu = ''ubuntu'',
      Pf9Packages = [''pf9-hostagent'', ''pf9-comms''],
      Files = [''/var/log/pf9'', ''/tmp/agent_install.log''],
      EtcDir = ''/etc/pf9'',
      OptDir = ''/var/opt/pf9'',
      Pf9DBLoc = ''db.json'',
      Green = (\<lambda>x. x)\<rparr>"

definition init_state :: state where
  "init_state =
     \<lparr>trace = [], HostAgent = 0, IsRemoteExecutor = False, homeDir = '''', SkipKube = False,
      masterIPs = [], workerIPs = [], clusterName = '''', Errhostid = None,
      attachconfig = \<lparr>MFA = ''''\<rparr>, cmd_nc = \<lparr>MFA = ''''\<rparr>\<rparr>"





text \<open>A host whose release metadata names no known family.\<close>

definition plan9_env :: env where
  "plan9_env = quiet_env\<lparr>RunWithStdout := (\<lambda>h argv. (''NAME=Plan9'', None))\<rparr>"





section \<open>What a call does to the state\<close>

lemma trace_emit: "trace (emit e s) = trace s @ [e]"
  by (simp add: emit_def)

lemma call_D: "call f ev s = (r, s') \<Longrightarrow> s' = s\<lparr>trace := trace s @ [ev r]\<rparr>"
  by (auto simp: call_def Let_def emit_def)

lemma call_answer: "call f ev s = (r, s') \<Longrightarrow> r = f (trace s)"
  by (auto simp: call_def Let_def)

lemma exec_D:
  "exec_RunWithStdout E argv s = ((out, err), s')
     \<Longrightarrow> s' = s\<lparr>trace := trace s @ [EvRunWithStdout argv out err]\<rparr>"
  unfolding exec_RunWithStdout_def by (drule call_D) simp

lemma Version_D:
  "platform_Version E family s = ((v, err), s')
     \<Longrightarrow> s' = s\<lparr>trace := trace s @ [EvVersion family v err]\<rparr>"
  unfolding platform_Version_def by (drule call_D) simp

lemma Lock_D:
  "debian_CheckIfdpkgISLock E s = ((ok, err), s')
     \<Longrightarrow> s' = s\<lparr>trace := trace s @ [EvCheckIfdpkgISLock ok err]\<rparr>"
  unfolding debian_CheckIfdpkgISLock_def by (drule call_D) simp

lemma Fetch_D:
  "keystone_FetchRegionFQDN E fqdn region auth s = ((url, err), s')
     \<Longrightarrow> s' = s\<lparr>trace := trace s @ [EvFetchRegionFQDN fqdn region auth url err]\<rparr>"
  unfolding keystone_FetchRegionFQDN_def by (drule call_D) simp

lemma Do_D:
  "client_Do E url s = ((status, err), s')
     \<Longrightarrow> s' = s\<lparr>trace := trace s @ [EvHttpGet url status err]\<rparr>"
  unfolding client_Do_def by (drule call_D) simp

lemma GetAuth_D:
  "Keystone_GetAuth E user pass tenant mfa s = ((auth, err), s')
     \<Longrightarrow> s' = s\<lparr>trace := trace s @ [EvGetAuth user pass tenant mfa auth err]\<rparr>"
  unfolding Keystone_GetAuth_def by (drule call_D) simp

lemma GetHostId_D:
  "Resmgr_GetHostId E token ips s = (ids, s')
     \<Longrightarrow> s' = s\<lparr>trace := trace s @ [EvGetHostId token ips ids]\<rparr>"
  unfolding Resmgr_GetHostId_def by (drule call_D) simp

lemma Authorize_D:
  "Resmgr_AuthorizeHost E hostID token s = (r, s')
     \<Longrightarrow> s' = s\<lparr>trace := trace s @ [EvAuthorizeHost hostID token r]\<rparr>"
  unfolding Resmgr_AuthorizeHost_def by (drule call_D) simp

lemma NodeInfo_D:
  "Qbert_GetNodeInfo E token projectID hostID s = (n, s')
     \<Longrightarrow> s' = s\<lparr>trace := trace s @ [EvGetNodeInfo token projectID hostID n]\<rparr>"
  unfolding Qbert_GetNodeInfo_def by (drule call_D) simp

lemma Deauth_D:
  "Qbert_DeauthoriseNode E hostID token s = (r, s')
     \<Longrightarrow> s' = s\<lparr>trace := trace s @ [EvDeauthoriseNode hostID token r]\<rparr>"
  unfolding Qbert_DeauthoriseNode_def by (drule call_D) simp

lemma Detach_D:
  "Qbert_DetachNode E uuid projectID token hostID s = (r, s')
     \<Longrightarrow> s' = s\<lparr>trace := trace s @ [EvDetachNode uuid projectID token hostID r]\<rparr>"
  unfolding Qbert_DetachNode_def by (drule call_D) simp

lemma CheckCluster_D:
  "Qbert_CheckClusterExists E name projectID token s = (uuid, s')
     \<Longrightarrow> s' = s\<lparr>trace := trace s @ [EvCheckClusterExists name projectID token uuid]\<rparr>"
  unfolding Qbert_CheckClusterExists_def by (drule call_D) simp

lemma Attach_D:
  "Qbert_AttachNode E uuid projectID token ids role s = (r, s')
     \<Longrightarrow> s' = s\<lparr>trace := trace s @ [EvAttachNode uuid projectID token ids role r]\<rparr>"
  unfolding Qbert_AttachNode_def by (drule call_D) simp

lemma SendEvent_D:
  "Segment_SendEvent E name auth status errStr s = (r, s')
     \<Longrightarrow> s' = s\<lparr>trace := trace s @ [EvSendEvent name auth status errStr r]\<rparr>"
  unfolding Segment_SendEvent_def by (drule call_D) simp

lemma GetExecutor_D:
  "cmdexec_GetExecutor E proxy nc s = (r, s')
     \<Longrightarrow> s' = s\<lparr>trace := trace s @ [EvGetExecutor proxy nc r]\<rparr>"
  unfolding cmdexec_GetExecutor_def by (drule call_D) simp

lemma NewClient_D:
  "client_NewClient E fqdn insecure s = (r, s')
     \<Longrightarrow> s' = s\<lparr>trace := trace s @ [EvNewClient fqdn insecure r]\<rparr>"
  unfolding client_NewClient_def by (drule call_D) simp

lemma CheckRemote_D:
  "cmdexec_CheckRemote E nc s = (r, s')
     \<Longrightarrow> s' = s\<lparr>trace := trace s @ [EvCheckRemote nc r]\<rparr>"
  unfolding cmdexec_CheckRemote_def by (drule call_D) simp

lemma ValidateNodeConfig_D:
  "config_ValidateNodeConfig E nc prompt s = ((ok, nc'), s')
     \<Longrightarrow> s' = s\<lparr>trace := trace s @ [EvValidateNodeConfig nc prompt ok nc']\<rparr>"
  unfolding config_ValidateNodeConfig_def by (drule call_D) simp

lemma LoadConfig_D:
  "config_LoadConfig E interactive loc cfg nc s = ((cfg', err), s')
     \<Longrightarrow> s' = s\<lparr>trace := trace s @ [EvLoadConfig interactive loc cfg nc cfg' err]\<rparr>"
  unfolding config_LoadConfig_def by (drule call_D) simp

lemmas call_Ds = exec_D Version_D Lock_D Fetch_D Do_D GetAuth_D GetHostId_D Authorize_D NodeInfo_D
  Deauth_D Detach_D CheckCluster_D Attach_D SendEvent_D GetExecutor_D NewClient_D CheckRemote_D
  ValidateNodeConfig_D LoadConfig_D


lemma new_events_append: "trace s' = trace s @ evs \<Longrightarrow> new_events s s' = evs"
  by (simp add: new_events_def)

lemma new_events_upd [simp]: "new_events s (s\<lparr>trace := trace s @ evs\<rparr>) = evs"
  by (simp add: new_events_def)

lemma exec_argvs_simps [simp]:
  "exec_argvs [] = []"
  "exec_argvs (e # es) = argv_of e @ exec_argvs es"
  "exec_argvs (xs @ ys) = exec_argvs xs @ exec_argvs ys"
  by (simp_all add: exec_argvs_def)

lemma wait_cmds_simps [simp]:
  "wait_cmds [] = []"
  "wait_cmds (e # es) = wait_of e @ wait_cmds es"
  "wait_cmds (xs @ ys) = wait_cmds xs @ wait_cmds ys"
  by (simp_all add: wait_cmds_def)


lemma steps_simps [simp]:
  "steps [] = []"
  "steps (e # es) = step_of e @ steps es"
  "steps (xs @ ys) = steps xs @ steps ys"
  by (simp_all add: steps_def)

lemma new_events_self [simp]: "new_events s s = []"
  by (simp add: new_events_def)

text \<open>Updates of a state are kept in one order, the trace last.\<close>

lemma upd_order [simp]:
  "s\<lparr>trace := t, HostAgent := a\<rparr> = s\<lparr>HostAgent := a, trace := t\<rparr>"
  "s\<lparr>trace := t, homeDir := h\<rparr> = s\<lparr>homeDir := h, trace := t\<rparr>"
  "s\<lparr>trace := t, Errhostid := e\<rparr> = s\<lparr>Errhostid := e, trace := t\<rparr>"
  "s\<lparr>trace := t, cmd_nc := n\<rparr> = s\<lparr>cmd_nc := n, trace := t\<rparr>"
  "s\<lparr>cmd_nc := n, HostAgent := a\<rparr> = s\<lparr>HostAgent := a, cmd_nc := n\<rparr>"
  "s\<lparr>cmd_nc := n, homeDir := h\<rparr> = s\<lparr>homeDir := h, cmd_nc := n\<rparr>"
  "s\<lparr>cmd_nc := n, Errhostid := e\<rparr> = s\<lparr>Errhostid := e, cmd_nc := n\<rparr>"
  "s\<lparr>Errhostid := e, HostAgent := a\<rparr> = s\<lparr>HostAgent := a, Errhostid := e\<rparr>"
  "s\<lparr>Errhostid := e, homeDir := h\<rparr> = s\<lparr>homeDir := h, Errhostid := e\<rparr>"
  "s\<lparr>homeDir := h, HostAgent := a\<rparr> = s\<lparr>HostAgent := a, homeDir := h\<rparr>"
  by simp_all

text \<open>Two updates of one state are equal when the updated fields are.\<close>

lemma state_eq_iff:
  "s = s' \<longleftrightarrow>
     trace s = trace s' \<and> HostAgent s = HostAgent s' \<and> IsRemoteExecutor s = IsRemoteExecutor s'
     \<and> homeDir s = homeDir s' \<and> SkipKube s = SkipKube s' \<and> masterIPs s = masterIPs s'
     \<and> workerIPs s = workerIPs s' \<and> clusterName s = clusterName s' \<and> Errhostid s = Errhostid s'
     \<and> attachconfig s = attachconfig s' \<and> cmd_nc s = cmd_nc s' \<and> state.more s = state.more s'"
  by (auto intro: state.equality)

lemma upd_eq_iff [simp]:
  "s\<lparr>trace := A\<rparr> = s\<lparr>trace := B\<rparr> \<longleftrightarrow> A = B"
  "s\<lparr>homeDir := h, trace := A\<rparr> = s\<lparr>homeDir := h', trace := B\<rparr> \<longleftrightarrow> h = h' \<and> A = B"
  "s\<lparr>HostAgent := a, trace := A\<rparr> = s\<lparr>HostAgent := a', trace := B\<rparr> \<longleftrightarrow> a = a' \<and> A = B"
  "s\<lparr>HostAgent := a, homeDir := h, trace := A\<rparr> = s\<lparr>HostAgent := a', homeDir := h', trace := B\<rparr>
     \<longleftrightarrow> a = a' \<and> h = h' \<and> A = B"
  "s\<lparr>Errhostid := e, trace := A\<rparr> = s\<lparr>Errhostid := e', trace := B\<rparr> \<longleftrightarrow> e = e' \<and> A = B"
  "s\<lparr>cmd_nc := n, trace := A\<rparr> = s\<lparr>cmd_nc := n', trace := B\<rparr> \<longleftrightarrow> n = n' \<and> A = B"
  "s\<lparr>HostAgent := a, homeDir := h, Errhostid := e, cmd_nc := n, trace := A\<rparr>
     = s\<lparr>HostAgent := a', homeDir := h', Errhostid := e', cmd_nc := n', trace := B\<rparr>
     \<longleftrightarrow> a = a' \<and> h = h' \<and> e = e' \<and> n = n' \<and> A = B"
  by (auto simp: state_eq_iff)

section \<open>Runs that continue a state\<close>

lemma continues_refl [simp]: "continues P s s"
  by (simp add: continues_def)

lemma continues_upd [simp]:
  "continues P s (s\<lparr>HostAgent := a, homeDir := h, Errhostid := e, cmd_nc := n, trace := trace s @ evs\<rparr>)
     \<longleftrightarrow> list_all P evs"
  "continues P s (s\<lparr>HostAgent := a, trace := trace s @ evs\<rparr>) \<longleftrightarrow> list_all P evs"
  "continues P s (s\<lparr>homeDir := h, trace := trace s @ evs\<rparr>) \<longleftrightarrow> list_all P evs"
  "continues P s (s\<lparr>HostAgent := a, homeDir := h, trace := trace s @ evs\<rparr>) \<longleftrightarrow> list_all P evs"
  "continues P s (s\<lparr>Errhostid := e, trace := trace s @ evs\<rparr>) \<longleftrightarrow> list_all P evs"
  "continues P s (s\<lparr>cmd_nc := n, trace := trace s @ evs\<rparr>) \<longleftrightarrow> list_all P evs"
  "continues P s (s\<lparr>trace := trace s @ evs\<rparr>) \<longleftrightarrow> list_all P evs"
  by (simp_all add: continues_def new_events_def)

lemma continues_D:
  assumes "continues P s s'"
  shows "\<exists>a h e n evs. s' = s\<lparr>HostAgent := a, homeDir := h, Errhostid := e, cmd_nc := n,
                                trace := trace s @ evs\<rparr> \<and> list_all P evs"
proof -
  have t: "trace s' = trace s @ new_events s s'"
    using assms append_take_drop_id [of "length (trace s)" "trace s'"]
    by (simp add: continues_def new_events_def)
  have "s' = s\<lparr>HostAgent := HostAgent s', homeDir := homeDir s', Errhostid := Errhostid s',
               cmd_nc := cmd_nc s', trace := trace s @ new_events s s'\<rparr>"
    using assms t by (simp add: continues_def)
  moreover have "list_all P (new_events s s')"
    using assms by (simp add: continues_def)
  ultimately show ?thesis by blast
qed

lemma continues_trans:
  assumes "continues P s s1" and "continues P s1 s2"
  shows "continues P s s2"
proof -
  from assms(1) obtain a h e n evs where
    1: "s1 = s\<lparr>HostAgent := a, homeDir := h, Errhostid := e, cmd_nc := n, trace := trace s @ evs\<rparr>"
    and p1: "list_all P evs"
    by (blast dest: continues_D)
  from assms(2) obtain a' h' e' n' evs' where
    2: "s2 = s1\<lparr>HostAgent := a', homeDir := h', Errhostid := e', cmd_nc := n', trace := trace s1 @ evs'\<rparr>"
    and p2: "list_all P evs'"
    by (blast dest: continues_D)
  have "s2 = s\<lparr>HostAgent := a', homeDir := h', Errhostid := e', cmd_nc := n',
               trace := trace s @ (evs @ evs')\<rparr>"
    unfolding 2 1 by simp
  moreover have "list_all P (evs @ evs')"
    using p1 p2 by simp
  ultimately show ?thesis
    using continues_upd(1) by blast
qed

lemma continues_weaken:
  assumes "continues P s s'" and "\<And>e. P e \<Longrightarrow> Q e"
  shows "continues Q s s'"
proof -
  have "list_all P evs \<Longrightarrow> list_all Q evs" for evs
    using assms(2) by (induction evs) auto
  then show ?thesis
    using assms(1) by (simp add: continues_def)
qed



section \<open>Platform detection\<close>

lemma ValidatePlatform_D:
  "ValidatePlatform E s = ((hostOS, err), s') \<Longrightarrow>
     \<exists>out e0 vs. s' = s\<lparr>trace := trace s @ EvRunWithStdout cat_os_release out e0 # vs\<rparr>
       \<and> (vs = [] \<or> (\<exists>family v ve. vs = [EvVersion family v ve]))
       \<and> (err \<noteq> None \<longleftrightarrow> e0 \<noteq> None)"
  unfolding ValidatePlatform_def OpenOSReleaseFile_def
  by (auto simp: Let_def split: prod.splits option.splits if_splits dest!: exec_D Version_D)

lemma plan9_lower: "strings_ToLower ''NAME=Plan9'' = ''name=plan9''"
  by (simp add: strings_ToLower_def toLower_byte_def)

text \<open>
  C3, as stated, fails: on release metadata that is readable and holds no family marker,
  \<open>ValidatePlatform\<close> returns the empty family and no error.
\<close>

theorem ValidatePlatform_unknown_family_no_error:
  "\<not> strings_Contains (strings_ToLower ''NAME=Plan9'') (Centos plan9_env)
   \<and> \<not> strings_Contains (strings_ToLower ''NAME=Plan9'') (Redhat plan9_env)
   \<and> \<not> strings_Contains (strings_ToLower ''NAME=Plan9'') (Ubuntu plan9_env)
   \<and> RunWithStdout plan9_env (trace init_state) cat_os_release = (''NAME=Plan9'', None)
   \<and> fst (ValidatePlatform plan9_env init_state) = ('''', None)"
  by (simp add: plan9_lower plan9_env_def quiet_env_def init_state_def ValidatePlatform_def
        OpenOSReleaseFile_def exec_RunWithStdout_def call_def)

text \<open>
  C3, amended: platform detection returns an error if and only if the release-metadata
  file cannot be read; when the file is read and its lower-cased content holds none of
  the family markers, detection returns the empty (unknown) family and no error.
\<close>

theorem ValidatePlatform_error_iff_unreadable:
  "(snd (fst (ValidatePlatform E s)) \<noteq> None
      \<longleftrightarrow> snd (RunWithStdout E (trace s) cat_os_release) \<noteq> None)
   \<and> (snd (RunWithStdout E (trace s) cat_os_release) = None
        \<and> \<not> strings_Contains (strings_ToLower (fst (RunWithStdout E (trace s) cat_os_release)))
                (Centos E)
        \<and> \<not> strings_Contains (strings_ToLower (fst (RunWithStdout E (trace s) cat_os_release)))
                (Redhat E)
        \<and> \<not> strings_Contains (strings_ToLower (fst (RunWithStdout E (trace s) cat_os_release)))
                (Ubuntu E)
      \<longrightarrow> fst (ValidatePlatform E s) = ('''', None))"
  by (cases "RunWithStdout E (trace s) cat_os_release")
     (simp add: ValidatePlatform_def OpenOSReleaseFile_def exec_RunWithStdout_def call_def
        platform_Version_def Let_def split: prod.splits option.splits)

theorem ValidatePlatform_error_iff_unreadable_witness:
  "snd (fst (ValidatePlatform plan9_env init_state)) = None
   \<and> fst (ValidatePlatform plan9_env init_state) = ('''', None)"
  using ValidatePlatform_error_iff_unreadable [of plan9_env init_state]
  by (simp add: plan9_lower plan9_env_def quiet_env_def init_state_def)



section \<open>Installing the host agent\<close>


















lemma init_state_simps [simp]:
  "trace init_state = []"
  "IsRemoteExecutor init_state = False"
  "SkipKube init_state = False"
  "HostAgent init_state = 0"
  by (simp_all add: init_state_def)




section \<open>Installer errors\<close>




section \<open>Cleaning up after the installer\<close>






end
